theory Spec2Isabelle
  imports Main "HOL-Library.Finite_Map"
begin

section \<open>Values\<close>

text \<open>
  The values that travel through the mail service as template data, locale
  configuration and driver options are plain JavaScript values. An object is a
  finite mapping from property names to values: object spread
  \<^verbatim>\<open>{...a, k: v}\<close> is \<open>fmupd k v a\<close>. The order of the properties of an
  object is not modelled. A \<^verbatim>\<open>Date\<close> is the clock reading it was built from.
\<close>

datatype jsval =
    JNull
  | JBool bool
  | JNum int
  | JStr string
  | JDate nat
  | JArr "jsval list"
  | JObj "(string, jsval) fmap"

type_synonym jobj = "(string, jsval) fmap"

section \<open>Mail\<close>

text \<open>
  Modelled from the spec: the class \<^verbatim>\<open>Mail\<close> (\<^verbatim>\<open>data/Mail\<close>) and the interfaces
  \<^verbatim>\<open>IMail\<close>, \<^verbatim>\<open>IMailViewData\<close> and \<^verbatim>\<open>IMailConfig\<close> (\<^verbatim>\<open>interfaces/data\<close>,
  \<^verbatim>\<open>interfaces/config\<close>) are not among the sources. A mail holds and exposes
  recipient(s), sender, subject, body, attachments and free-form options; the body
  is either a plain string or a template descriptor with a view name and an
  optional key-value data object; the body setter stores what it is given, with no
  validation. \<open>data = None\<close> is a descriptor without a \<^verbatim>\<open>data\<close> field.
\<close>

record IMailViewData =
  view :: string
  data :: "jobj option"

datatype MailBody = BodyString string | BodyView IMailViewData

datatype recipients = OneAddress string | ManyAddresses "string list"

record Mail =
  mail_to :: recipients
  mail_from :: string
  mail_subject :: string
  mail_body :: MailBody
  mail_attachments :: "jsval list"
  mail_options :: jsval

definition getTo :: "Mail \<Rightarrow> recipients" where
  "getTo m = mail_to m"

definition getFrom :: "Mail \<Rightarrow> string" where
  "getFrom m = mail_from m"

definition getSubject :: "Mail \<Rightarrow> string" where
  "getSubject m = mail_subject m"

definition getBody :: "Mail \<Rightarrow> MailBody" where
  "getBody m = mail_body m"

definition getAttachments :: "Mail \<Rightarrow> jsval list" where
  "getAttachments m = mail_attachments m"

definition setBody :: "MailBody \<Rightarrow> Mail \<Rightarrow> Mail" where
  "setBody b m = m\<lparr>mail_body := b\<rparr>"

text \<open>The value of a recipient field inside an object literal.\<close>

fun recipients_value :: "recipients \<Rightarrow> jsval" where
  "recipients_value (OneAddress s) = JStr s"
| "recipients_value (ManyAddresses ss) = JArr (map JStr ss)"

text \<open>
  The template data of a body at one property name: what a renderer handed this
  body finds under that name.
\<close>

fun bodyData :: "MailBody \<Rightarrow> string \<Rightarrow> jsval option" where
  "bodyData (BodyString s) k = None"
| "bodyData (BodyView b) k = (case data b of None \<Rightarrow> None | Some d \<Rightarrow> fmlookup d k)"

section \<open>Configuration, drivers and the service\<close>

text \<open>
  \<^verbatim>\<open>MailAdapterConstructor\<close> is a class taking the options; the interface
  \<^verbatim>\<open>MailAdapters\<close> of \<^verbatim>\<open>interfaces/adapter.ts\<close> names three of them.
\<close>

datatype MailAdapterConstructor =
    LocalMailDriverClass
  | NodeMailDriverClass
  | ResendMailDriverClass

record MailAdapterConfigItem =
  name :: string
  driver :: MailAdapterConstructor
  options :: jsval

record IMailConfig =
  default_name :: string
  drivers :: "MailAdapterConfigItem list"

text \<open>
  An adapter instance. The number is the identity of the object: two instances
  built by two \<^verbatim>\<open>new\<close> expressions differ in it. \<^verbatim>\<open>LocalMailDriver\<close>
  (\<^verbatim>\<open>unnamed/part_000\<close>) has no field: its constructor drops \<^verbatim>\<open>_options\<close>.

  Modelled from the spec: the classes \<^verbatim>\<open>NodeMailDriver\<close> and \<^verbatim>\<open>ResendMailDriver\<close>
  are not among the sources. Each keeps its constructor-time options, returns them
  from \<^verbatim>\<open>getOptions\<close>, and in \<^verbatim>\<open>send\<close> resolves the body and hands the mail to
  its transport, whose failure propagates unchanged.
\<close>

datatype MailAdapter =
    LocalMailDriver nat
  | NodeMailDriver nat jsval
  | ResendMailDriver nat jsval

fun construct :: "MailAdapterConstructor \<Rightarrow> jsval \<Rightarrow> nat \<Rightarrow> MailAdapter" where
  "construct LocalMailDriverClass unused i = LocalMailDriver i"
| "construct NodeMailDriverClass opts i = NodeMailDriver i opts"
| "construct ResendMailDriverClass opts i = ResendMailDriver i opts"

fun getOptions :: "MailAdapter \<Rightarrow> jsval" where
  "getOptions (LocalMailDriver i) = JObj fmempty"
| "getOptions (NodeMailDriver i opts) = opts"
| "getOptions (ResendMailDriver i opts) = opts"

text \<open>
  The fields of \<^verbatim>\<open>MailService\<close>. \<open>adapters\<close> is the registry inherited from
  \<^verbatim>\<open>BaseAdapter\<close>, in registration order.
\<close>

record MailService =
  mailConfig :: IMailConfig
  localesConfig :: jobj
  adapters :: "(string \<times> MailAdapter) list"

section \<open>Errors, effects and the world\<close>

datatype error =
    UnknownDriver string
  | RenderError string
  | TransportError string

text \<open>
  The text \<^verbatim>\<open>JSON.stringify\<close> returns for a value is kept symbolic: it is
  written as the call, and nothing is assumed of the serialiser.
\<close>

datatype json_text = JSON_stringify jsval

text \<open>
  Every call into an injected dependency is recorded, in order: the logger's
  \<^verbatim>\<open>info\<close> and \<^verbatim>\<open>error\<close>, the view service's \<^verbatim>\<open>render\<close>, a driver's
  transport.
\<close>

datatype event =
    LoggerInfo string json_text
  | LoggerError error
  | Render string jobj
  | Transport MailAdapter Mail string

text \<open>
  The state a call can touch: the service object, the mail objects by reference
  (\<open>mails w a\<close> is the object at reference \<open>a\<close>), the calls made so far, and the
  number of adapter instances built so far.
\<close>

record world =
  service :: MailService
  mails :: "nat \<Rightarrow> Mail"
  trace :: "event list"
  allocated :: nat

text \<open>
  The dependencies, as results of their calls: what the view service's
  \<^verbatim>\<open>render\<close> resolves or rejects with, and what a remote driver's transport
  does with a resolved mail. The fields \<^verbatim>\<open>logger!\<close> and \<^verbatim>\<open>view!\<close> are taken
  as set, as their types declare, and the logger's methods as returning normally.
\<close>

record deps =
  render :: "string \<Rightarrow> jobj \<Rightarrow> error + string"
  transport :: "MailAdapter \<Rightarrow> Mail \<Rightarrow> string \<Rightarrow> error + unit"

definition logger_info :: "string \<Rightarrow> json_text \<Rightarrow> world \<Rightarrow> world" where
  "logger_info msg ctx w = w\<lparr>trace := trace w @ [LoggerInfo msg ctx]\<rparr>"

definition logger_error :: "error \<Rightarrow> world \<Rightarrow> world" where
  "logger_error err w = w\<lparr>trace := trace w @ [LoggerError err]\<rparr>"

definition view_render :: "deps \<Rightarrow> string \<Rightarrow> jobj \<Rightarrow> world \<Rightarrow> (error + string) \<times> world" where
  "view_render D v d w = (render D v d, w\<lparr>trace := trace w @ [Render v d]\<rparr>)"

section \<open>The adapter registry\<close>

text \<open>
  Modelled from the spec: \<^verbatim>\<open>BaseAdapter\<close> comes from the package
  \<^verbatim>\<open>larascript-core\<close> and is not among the sources. A registration under a name
  that is already registered is ignored, not an overwrite.
\<close>

definition addAdapterOnce ::
  "string \<Rightarrow> MailAdapter \<Rightarrow> (string \<times> MailAdapter) list \<Rightarrow> (string \<times> MailAdapter) list" where
  "addAdapterOnce n a reg = (if n \<in> fst ` set reg then reg else reg @ [(n, a)])"

text \<open>
  Modelled from the spec: the lookup of \<^verbatim>\<open>BaseAdapter\<close> is pure and fails with an
  unknown-driver condition when the name is not registered.
\<close>

definition getAdapter :: "MailService \<Rightarrow> string \<Rightarrow> error + MailAdapter" where
  "getAdapter s n =
     (case map_of (adapters s) n of
        None \<Rightarrow> Inl (UnknownDriver n)
      | Some a \<Rightarrow> Inr a)"

section \<open>BaseMailAdapter\<close>

text \<open>\<^verbatim>\<open>generateBodyString\<close> of \<^verbatim>\<open>base/BaseMailAdapter.ts\<close>, on the mail at reference \<open>a\<close>.\<close>

definition generateBodyString :: "deps \<Rightarrow> nat \<Rightarrow> world \<Rightarrow> (error + string) \<times> world" where
  "generateBodyString D a w =
     (case getBody (mails w a) of
        BodyString s \<Rightarrow> (Inr s, w)
      | BodyView b \<Rightarrow>
          view_render D (view b) (case data b of None \<Rightarrow> fmempty | Some d \<Rightarrow> d) w)"

section \<open>The drivers\<close>

text \<open>
  \<^verbatim>\<open>LocalMailDriver.send\<close>: the object literal reads the mail's fields, awaits the
  body string, and the logger's \<^verbatim>\<open>info\<close> gets its JSON text.
\<close>

definition LocalMailDriver_send :: "deps \<Rightarrow> nat \<Rightarrow> world \<Rightarrow> (error + unit) \<times> world" where
  "LocalMailDriver_send D a w =
     (case generateBodyString D a w of
        (Inl err, w') \<Rightarrow> (Inl err, w')
      | (Inr b, w') \<Rightarrow>
          (Inr (),
           logger_info ''Email''
             (JSON_stringify (JObj (fmap_of_list
                [(''to'', recipients_value (getTo (mails w a))),
                 (''from'', JStr (getFrom (mails w a))),
                 (''subject'', JStr (getSubject (mails w a))),
                 (''body'', JStr b),
                 (''attachments'', JArr (getAttachments (mails w' a)))])))
             w'))"

text \<open>
  Modelled from the spec: \<^verbatim>\<open>send\<close> of the two remote drivers, whose sources are
  missing. The body is resolved first; the transport is called once with the
  resolved mail, and its error, if any, is the error of \<^verbatim>\<open>send\<close>.
\<close>

definition remote_send :: "deps \<Rightarrow> MailAdapter \<Rightarrow> nat \<Rightarrow> world \<Rightarrow> (error + unit) \<times> world" where
  "remote_send D ad a w =
     (case generateBodyString D a w of
        (Inl err, w') \<Rightarrow> (Inl err, w')
      | (Inr b, w') \<Rightarrow>
          (transport D ad (mails w' a) b,
           w'\<lparr>trace := trace w' @ [Transport ad (mails w' a) b]\<rparr>))"

text \<open>The method \<^verbatim>\<open>send\<close> of an adapter, by its class.\<close>

fun adapter_send :: "deps \<Rightarrow> MailAdapter \<Rightarrow> nat \<Rightarrow> world \<Rightarrow> (error + unit) \<times> world" where
  "adapter_send D (LocalMailDriver i) a w = LocalMailDriver_send D a w"
| "adapter_send D (NodeMailDriver i opts) a w = remote_send D (NodeMailDriver i opts) a w"
| "adapter_send D (ResendMailDriver i opts) a w = remote_send D (ResendMailDriver i opts) a w"

section \<open>MailService\<close>

text \<open>The constructor: the two configuration objects and an empty registry.\<close>

definition MailService_new :: "IMailConfig \<Rightarrow> jobj \<Rightarrow> MailService" where
  "MailService_new cfg loc = \<lparr>mailConfig = cfg, localesConfig = loc, adapters = []\<rparr>"

text \<open>
  \<^verbatim>\<open>boot\<close>: for each configured entry, in order, the adapter is built by \<^verbatim>\<open>new\<close>
  (the argument is evaluated before the call) and passed to \<^verbatim>\<open>addAdapterOnce\<close>.
  The loop threads the registry and the count of instances built.
\<close>

fun boot_drivers ::
  "MailAdapterConfigItem list \<Rightarrow> (string \<times> MailAdapter) list \<Rightarrow> nat
     \<Rightarrow> (string \<times> MailAdapter) list \<times> nat" where
  "boot_drivers [] reg n = (reg, n)"
| "boot_drivers (driverConfig # rest) reg n =
     boot_drivers rest
       (addAdapterOnce (name driverConfig)
          (construct (driver driverConfig) (options driverConfig) n) reg)
       (Suc n)"

definition boot :: "world \<Rightarrow> world" where
  "boot w =
     (case boot_drivers (drivers (mailConfig (service w))) (adapters (service w)) (allocated w) of
        (reg, n) \<Rightarrow> w\<lparr>service := (service w)\<lparr>adapters := reg\<rparr>, allocated := n\<rparr>)"

definition getDriver :: "MailService \<Rightarrow> string \<Rightarrow> error + MailAdapter" where
  "getDriver s n = getAdapter s n"

definition getDefaultDriver :: "MailService \<Rightarrow> error + MailAdapter" where
  "getDefaultDriver s = getAdapter s (default_name (mailConfig s))"

text \<open>
  \<^verbatim>\<open>addLocalesData\<close>, on the mail at reference \<open>a\<close>, at clock reading \<open>now\<close>. The
  result of the source function is its argument, the same reference. For a
  descriptor without data the spread of \<^verbatim>\<open>[]\<close> copies no property.
\<close>

definition addLocalesData :: "nat \<Rightarrow> nat \<Rightarrow> world \<Rightarrow> world" where
  "addLocalesData now a w =
     (case getBody (mails w a) of
        BodyString s \<Rightarrow> w
      | BodyView mailBody \<Rightarrow>
          (let locales = fmupd ''date'' (JDate now) (localesConfig (service w))
           in w\<lparr>mails := (mails w)
                (a := setBody
                   (BodyView (mailBody\<lparr>data :=
                      Some (fmupd ''locales'' (JObj locales)
                              (case data mailBody of None \<Rightarrow> fmempty | Some d \<Rightarrow> d))\<rparr>))
                   (mails w a))\<rparr>))"

text \<open>The \<^verbatim>\<open>try\<close> block of \<^verbatim>\<open>send\<close>, and \<^verbatim>\<open>send\<close> with its \<^verbatim>\<open>catch\<close>.\<close>

definition send_try :: "deps \<Rightarrow> nat \<Rightarrow> nat \<Rightarrow> string \<Rightarrow> world \<Rightarrow> (error + unit) \<times> world" where
  "send_try D now a drv w =
     (let w1 = addLocalesData now a w
      in case getAdapter (service w1) drv of
           Inl err \<Rightarrow> (Inl err, w1)
         | Inr ad \<Rightarrow> adapter_send D ad a w1)"

text \<open>\<open>driver = None\<close> is a call without the second argument.\<close>

definition send :: "deps \<Rightarrow> nat \<Rightarrow> nat \<Rightarrow> string option \<Rightarrow> world \<Rightarrow> (error + unit) \<times> world" where
  "send D now a drv w =
     (case send_try D now a
             (case drv of None \<Rightarrow> default_name (mailConfig (service w)) | Some d \<Rightarrow> d) w of
        (Inl err, w') \<Rightarrow> (Inl err, logger_error err w')
      | (Inr u, w') \<Rightarrow> (Inr u, w'))"

section \<open>Observations\<close>

text \<open>The world in which reference \<open>a\<close> holds the mail \<open>m\<close>.\<close>

definition mail_at :: "nat \<Rightarrow> Mail \<Rightarrow> world \<Rightarrow> world" where
  "mail_at a m w = w\<lparr>mails := (mails w)(a := m)\<rparr>"

text \<open>The world whose service object is \<open>s\<close>.\<close>

definition with_service :: "MailService \<Rightarrow> world \<Rightarrow> world" where
  "with_service s w = w\<lparr>service := s\<rparr>"

text \<open>The kinds of recorded calls.\<close>

fun isLoggerError :: "event \<Rightarrow> bool" where
  "isLoggerError (LoggerError err) = True"
| "isLoggerError (LoggerInfo msg ctx) = False"
| "isLoggerError (Render v d) = False"
| "isLoggerError (Transport ad m b) = False"

fun isRender :: "event \<Rightarrow> bool" where
  "isRender (Render v d) = True"
| "isRender (LoggerError err) = False"
| "isRender (LoggerInfo msg ctx) = False"
| "isRender (Transport ad m b) = False"

fun isTransport :: "event \<Rightarrow> bool" where
  "isTransport (Transport ad m b) = True"
| "isTransport (Render v d) = False"
| "isTransport (LoggerError err) = False"
| "isTransport (LoggerInfo msg ctx) = False"

text \<open>
  The configuration, mail and dependencies of the spec's example: one local driver
  under the default name, a mail with a plain body; a view service that renders,
  one that fails; and a world where the service was built and booted and every
  reference holds that mail.
\<close>

definition example_config :: IMailConfig where
  "example_config =
     \<lparr>default_name = ''local'',
      drivers = [\<lparr>name = ''local'', driver = LocalMailDriverClass, options = JObj fmempty\<rparr>]\<rparr>"

definition example_mail :: Mail where
  "example_mail =
     \<lparr>mail_to = OneAddress ''a@b.com'', mail_from = ''c@d.com'', mail_subject = ''Hi'',
      mail_body = BodyString ''Hello'', mail_attachments = [], mail_options = JObj fmempty\<rparr>"

definition rendering :: deps where
  "rendering = \<lparr>render = (\<lambda>v d. Inr (''<p>'' @ v @ ''</p>'')), transport = (\<lambda>ad m b. Inr ())\<rparr>"

definition failing :: deps where
  "failing = \<lparr>render = (\<lambda>v d. Inl (RenderError v)), transport = (\<lambda>ad m b. Inr ())\<rparr>"

definition fresh_world :: world where
  "fresh_world =
     \<lparr>service = MailService_new example_config fmempty,
      mails = (\<lambda>a. example_mail), trace = [], allocated = 0\<rparr>"

definition example_world :: world where
  "example_world = boot fresh_world"

text \<open>
  The first configured entry under the name \<open>k\<close>, with the number of its
  instance when the entries are built in order from instance number \<open>n\<close> on; and
  the adapter built from such an entry.
\<close>

definition first_entry ::
  "string \<Rightarrow> nat \<Rightarrow> MailAdapterConfigItem list \<Rightarrow> (nat \<times> MailAdapterConfigItem) option" where
  "first_entry k n ds = find (\<lambda>e. name (snd e) = k) (enumerate n ds)"

definition built :: "nat \<times> MailAdapterConfigItem \<Rightarrow> MailAdapter" where
  "built e = construct (driver (snd e)) (options (snd e)) (fst e)"

text \<open>The name \<^verbatim>\<open>send\<close> resolves its adapter by: the argument, or the configured default.\<close>

definition driver_name :: "string option \<Rightarrow> world \<Rightarrow> string" where
  "driver_name drv w = (case drv of None \<Rightarrow> default_name (mailConfig (service w)) | Some d \<Rightarrow> d)"

text \<open>The \<^verbatim>\<open>locales\<close> object built by \<^verbatim>\<open>addLocalesData\<close> at clock reading \<open>now\<close>.\<close>

definition locales_at :: "nat \<Rightarrow> world \<Rightarrow> jsval" where
  "locales_at now w = JObj (fmupd ''date'' (JDate now) (localesConfig (service w)))"

section \<open>What a call leaves alone\<close>

lemma addLocalesData_frame:
  "service (addLocalesData now a w) = service w"
  "trace (addLocalesData now a w) = trace w"
  "allocated (addLocalesData now a w) = allocated w"
  by (simp_all add: addLocalesData_def Let_def split: MailBody.splits)

lemma generateBodyString_frame:
  "service (snd (generateBodyString D a w)) = service w"
  "mails (snd (generateBodyString D a w)) = mails w"
  "allocated (snd (generateBodyString D a w)) = allocated w"
  by (simp_all add: generateBodyString_def view_render_def split: MailBody.splits)

lemma generateBodyString_trace:
  "trace (snd (generateBodyString D a w)) =
     trace w @ (case getBody (mails w a) of
                  BodyString s \<Rightarrow> []
                | BodyView b \<Rightarrow> [Render (view b) (case data b of None \<Rightarrow> fmempty | Some d \<Rightarrow> d)])"
  by (simp add: generateBodyString_def view_render_def split: MailBody.splits)

lemma adapter_send_frame:
  "service (snd (adapter_send D ad a w)) = service w"
  "mails (snd (adapter_send D ad a w)) = mails w"
  "allocated (snd (adapter_send D ad a w)) = allocated w"
  by (cases ad; cases "generateBodyString D a w";
      use generateBodyString_frame[of D a w] in
      \<open>simp add: LocalMailDriver_send_def remote_send_def logger_info_def split: sum.splits\<close>)+

lemma send_try_frame:
  "service (snd (send_try D now a n w)) = service w"
  "mails (snd (send_try D now a n w)) = mails (addLocalesData now a w)"
  "allocated (snd (send_try D now a n w)) = allocated w"
  by (simp_all add: send_try_def Let_def adapter_send_frame addLocalesData_frame split: sum.splits)

lemma send_frame:
  "service (snd (send D now a drv w)) = service w"
  "mails (snd (send D now a drv w)) = mails (addLocalesData now a w)"
  "allocated (snd (send D now a drv w)) = allocated w"
  by (cases "send_try D now a (case drv of None \<Rightarrow> default_name (mailConfig (service w)) | Some d \<Rightarrow> d) w";
      use send_try_frame[of D now a "(case drv of None \<Rightarrow> default_name (mailConfig (service w)) | Some d \<Rightarrow> d)" w] in
      \<open>simp add: send_def logger_error_def split: sum.splits\<close>)+

section \<open>Body resolution\<close>

text \<open>
  Claim C3. For every mail, \<^verbatim>\<open>generateBodyString\<close> returns the body itself when
  the body is a plain string, and calls nothing. When the body is a template
  descriptor it calls the view service's \<^verbatim>\<open>render\<close> once, with the
  descriptor's view and data (an empty object when the descriptor has no data), and
  its outcome is the outcome of that call: the rendered string, or the render
  error, which is not caught.
\<close>

theorem generateBodyString_result:
  "generateBodyString D a (mail_at a (setBody (BodyString s) m) w)
     = (Inr s, mail_at a (setBody (BodyString s) m) w) \<and>
   generateBodyString D a (mail_at a (setBody (BodyView \<lparr>view = v, data = d\<rparr>) m) w)
     = (render D v (case d of None \<Rightarrow> fmempty | Some x \<Rightarrow> x),
        (mail_at a (setBody (BodyView \<lparr>view = v, data = d\<rparr>) m) w)
          \<lparr>trace := trace w @ [Render v (case d of None \<Rightarrow> fmempty | Some x \<Rightarrow> x)]\<rparr>)"
  by (simp add: generateBodyString_def view_render_def mail_at_def setBody_def getBody_def)

section \<open>Failures of \<^verbatim>\<open>send\<close>\<close>

lemma adapter_send_trace:
  "filter isLoggerError (trace (snd (adapter_send D ad a w))) = filter isLoggerError (trace w)"
  "length (filter isRender (trace (snd (adapter_send D ad a w)))) \<le> Suc (length (filter isRender (trace w)))"
  "length (filter isTransport (trace (snd (adapter_send D ad a w)))) \<le> Suc (length (filter isTransport (trace w)))"
  by (cases ad; cases "generateBodyString D a w";
      use generateBodyString_trace[of D a w] in
      \<open>simp add: LocalMailDriver_send_def remote_send_def logger_info_def split: sum.splits MailBody.splits\<close>)+

lemma send_try_trace:
  "filter isLoggerError (trace (snd (send_try D now a n w))) = filter isLoggerError (trace w)"
  "length (filter isRender (trace (snd (send_try D now a n w)))) \<le> Suc (length (filter isRender (trace w)))"
  "length (filter isTransport (trace (snd (send_try D now a n w)))) \<le> Suc (length (filter isTransport (trace w)))"
  using adapter_send_trace[of D _ a "addLocalesData now a w"]
  by (simp_all add: send_try_def Let_def addLocalesData_frame split: sum.splits)

lemma send_try_throws:
  "fst (send_try D now a n w) = Inl err \<longleftrightarrow>
     getAdapter (service w) n = Inl err \<or>
     (\<exists>ad. getAdapter (service w) n = Inr ad \<and>
           fst (adapter_send D ad a (addLocalesData now a w)) = Inl err)"
  by (auto simp: send_try_def Let_def addLocalesData_frame split: sum.splits)

lemma send_catch:
  "fst (send_try D now a (driver_name drv w) w) = Inl err \<Longrightarrow>
     send D now a drv w
       = (Inl err, logger_error err (snd (send_try D now a (driver_name drv w) w)))"
  by (cases "send_try D now a (driver_name drv w) w") (simp add: send_def driver_name_def)

lemma example_world_eq:
  "example_world =
     \<lparr>service = \<lparr>mailConfig = example_config, localesConfig = fmempty,
                 adapters = [(''local'', LocalMailDriver 0)]\<rparr>,
      mails = (\<lambda>a. example_mail), trace = [], allocated = 1\<rparr>"
  by (simp add: example_world_def fresh_world_def boot_def MailService_new_def example_config_def
        addAdapterOnce_def)

text \<open>
  Claim C1. For every mail and driver name: if a step of the \<^verbatim>\<open>try\<close> block of
  \<^verbatim>\<open>MailService.send\<close> throws an error \<open>err\<close> (the adapter lookup, or the
  adapter's \<^verbatim>\<open>send\<close>, which includes a failing render; the locale merge has no
  failing branch), then \<^verbatim>\<open>send\<close> rejects with \<open>err\<close> itself, the logger's
  \<^verbatim>\<open>error\<close> is called with \<open>err\<close> as the last call of \<^verbatim>\<open>send\<close>, it is the one
  call of the logger's \<^verbatim>\<open>error\<close> that \<^verbatim>\<open>send\<close> adds, and the view service and the
  transport are called at most once each: nothing is retried.
\<close>

theorem send_logs_and_rethrows:
  assumes "getAdapter (service w) (driver_name drv w) = Inl err \<or>
           (\<exists>ad. getAdapter (service w) (driver_name drv w) = Inr ad \<and>
                 fst (adapter_send D ad a (addLocalesData now a w)) = Inl err)"
  shows "fst (send D now a drv w) = Inl err \<and>
         trace (snd (send D now a drv w))
           = trace (snd (send_try D now a (driver_name drv w) w)) @ [LoggerError err] \<and>
         filter isLoggerError (trace (snd (send D now a drv w)))
           = filter isLoggerError (trace w) @ [LoggerError err] \<and>
         length (filter isRender (trace (snd (send D now a drv w))))
           \<le> Suc (length (filter isRender (trace w))) \<and>
         length (filter isTransport (trace (snd (send D now a drv w))))
           \<le> Suc (length (filter isTransport (trace w)))"
proof -
  let ?n = "driver_name drv w"
  from assms have thrown: "fst (send_try D now a ?n w) = Inl err"
    by (simp add: send_try_throws)
  have caught: "send D now a drv w = (Inl err, logger_error err (snd (send_try D now a ?n w)))"
    by (rule send_catch [OF thrown])
  show ?thesis
    using send_try_trace[of D now a ?n w]
    by (simp add: caught logger_error_def)
qed

theorem send_logs_and_rethrows_witness:
  "fst (send failing 7 0 None
          (mail_at 0 (setBody (BodyView \<lparr>view = ''welcome'', data = None\<rparr>) example_mail) example_world))
     = Inl (RenderError ''welcome'') \<and>
   filter isLoggerError (trace (snd (send failing 7 0 None
          (mail_at 0 (setBody (BodyView \<lparr>view = ''welcome'', data = None\<rparr>) example_mail) example_world))))
     = [LoggerError (RenderError ''welcome'')]"
proof -
  let ?w = "mail_at 0 (setBody (BodyView \<lparr>view = ''welcome'', data = None\<rparr>) example_mail) example_world"
  have "getAdapter (service ?w) (driver_name None ?w) = Inr (LocalMailDriver 0) \<and>
        fst (adapter_send failing (LocalMailDriver 0) 0 (addLocalesData 7 0 ?w))
          = Inl (RenderError ''welcome'')"
    by (simp add: example_world_eq mail_at_def getAdapter_def driver_name_def example_config_def
          addLocalesData_def setBody_def getBody_def LocalMailDriver_send_def generateBodyString_def
          view_render_def failing_def)
  then have thrown:
    "getAdapter (service ?w) (driver_name None ?w) = Inl (RenderError ''welcome'') \<or>
       (\<exists>ad. getAdapter (service ?w) (driver_name None ?w) = Inr ad \<and>
             fst (adapter_send failing ad 0 (addLocalesData 7 0 ?w)) = Inl (RenderError ''welcome''))"
    by blast
  have quiet: "trace ?w = []"
    by (simp add: example_world_eq mail_at_def)
  from send_logs_and_rethrows [OF thrown]
  have "fst (send failing 7 0 None ?w) = Inl (RenderError ''welcome'')"
    and "filter isLoggerError (trace (snd (send failing 7 0 None ?w)))
           = filter isLoggerError (trace ?w) @ [LoggerError (RenderError ''welcome'')]"
    by blast+
  then show ?thesis
    by (simp add: quiet)
qed

section \<open>The registry after \<^verbatim>\<open>boot\<close>\<close>

lemma map_of_addAdapterOnce:
  "map_of (addAdapterOnce n a reg) k =
     (case map_of reg k of Some ad \<Rightarrow> Some ad | None \<Rightarrow> if k = n then Some a else None)"
proof -
  have "n \<in> fst ` set reg \<longleftrightarrow> map_of reg n \<noteq> None"
    by (simp add: map_of_eq_None_iff)
  then show ?thesis
    by (cases "map_of reg n"; cases "map_of reg k") (auto simp: addAdapterOnce_def map_add_def)
qed

lemma built_pair: "built (i, d) = construct (driver d) (options d) i"
  by (simp add: built_def)

lemma keys_addAdapterOnce:
  "fst ` set (addAdapterOnce n a reg) = insert n (fst ` set reg)"
  by (auto simp: addAdapterOnce_def)

lemma distinct_addAdapterOnce:
  "distinct (map fst reg) \<Longrightarrow> distinct (map fst (addAdapterOnce n a reg))"
  by (auto simp: addAdapterOnce_def)

lemma boot_drivers_lookup:
  "map_of (fst (boot_drivers ds reg n)) k =
     (case map_of reg k of
        Some ad \<Rightarrow> Some ad
      | None \<Rightarrow> map_option built (first_entry k n ds))"
proof (induction ds arbitrary: reg n)
  case Nil
  show ?case by (simp add: first_entry_def split: option.splits)
next
  case (Cons d ds)
  show ?case
    by (simp add: Cons.IH map_of_addAdapterOnce first_entry_def built_pair split: option.splits)
qed

lemma boot_drivers_keys:
  "fst ` set (fst (boot_drivers ds reg n)) = fst ` set reg \<union> name ` set ds"
  by (induction ds arbitrary: reg n) (auto simp: keys_addAdapterOnce)

lemma boot_drivers_distinct:
  "distinct (map fst reg) \<Longrightarrow> distinct (map fst (fst (boot_drivers ds reg n)))"
  by (induction ds arbitrary: reg n) (simp_all add: distinct_addAdapterOnce)

lemma boot_drivers_count:
  "snd (boot_drivers ds reg n) = n + length ds"
  by (induction ds arbitrary: reg n) simp_all

lemma boot_drivers_registered:
  "name ` set ds \<subseteq> fst ` set reg \<Longrightarrow> fst (boot_drivers ds reg n) = reg"
  by (induction ds arbitrary: n) (simp_all add: addAdapterOnce_def)

lemma boot_fields:
  "adapters (service (boot w))
     = fst (boot_drivers (drivers (mailConfig (service w))) (adapters (service w)) (allocated w))"
  "mailConfig (service (boot w)) = mailConfig (service w)"
  "localesConfig (service (boot w)) = localesConfig (service w)"
  "allocated (boot w) = allocated w + length (drivers (mailConfig (service w)))"
  using boot_drivers_count[of "drivers (mailConfig (service w))" "adapters (service w)" "allocated w"]
  by (cases "boot_drivers (drivers (mailConfig (service w))) (adapters (service w)) (allocated w)";
      simp add: boot_def)+

lemma boot_twice:
  "adapters (service (boot (boot w))) = adapters (service (boot w))"
proof -
  let ?ds = "drivers (mailConfig (service w))"
  let ?reg = "fst (boot_drivers ?ds (adapters (service w)) (allocated w))"
  have "name ` set ?ds \<subseteq> fst ` set ?reg"
    by (simp add: boot_drivers_keys)
  then have "fst (boot_drivers ?ds ?reg (allocated (boot w))) = ?reg"
    by (rule boot_drivers_registered)
  then show ?thesis
    by (simp add: boot_fields)
qed

text \<open>
  Claim C6. \<^verbatim>\<open>boot\<close> is idempotent on the registry: for every service, whatever
  its configuration, a second \<^verbatim>\<open>boot\<close> leaves the registry as the first one left
  it. A name registered before a \<^verbatim>\<open>boot\<close> keeps its adapter; a name not yet
  registered gets the adapter built from the first configured entry under that
  name. After the \<^verbatim>\<open>boot\<close> of a newly constructed service each configured name is
  registered exactly once and nothing else is. The second \<^verbatim>\<open>boot\<close> does build one
  more instance per entry, which the registry ignores.
\<close>

theorem boot_idempotent:
  "adapters (service (boot (boot w))) = adapters (service (boot w)) \<and>
   map_of (adapters (service (boot w))) k =
     (case map_of (adapters (service w)) k of
        Some ad \<Rightarrow> Some ad
      | None \<Rightarrow> map_option built (first_entry k (allocated w) (drivers (mailConfig (service w))))) \<and>
   distinct (map fst (adapters (service (boot (with_service (MailService_new cfg loc) w))))) \<and>
   fst ` set (adapters (service (boot (with_service (MailService_new cfg loc) w))))
     = name ` set (drivers cfg) \<and>
   allocated (boot (boot w)) = allocated w + 2 * length (drivers (mailConfig (service w)))"
proof -
  have once: "adapters (service (boot (boot w))) = adapters (service (boot w))"
    by (rule boot_twice)
  have kept: "map_of (adapters (service (boot w))) k =
     (case map_of (adapters (service w)) k of
        Some ad \<Rightarrow> Some ad
      | None \<Rightarrow> map_option built (first_entry k (allocated w) (drivers (mailConfig (service w)))))"
    by (simp add: boot_fields boot_drivers_lookup)
  have built_twice:
    "allocated (boot (boot w)) = allocated w + 2 * length (drivers (mailConfig (service w)))"
    by (simp add: boot_fields)
  have one_each:
    "distinct (map fst (adapters (service (boot (with_service (MailService_new cfg loc) w)))))"
    by (simp add: boot_fields boot_drivers_distinct with_service_def MailService_new_def)
  have all_names: "fst ` set (adapters (service (boot (with_service (MailService_new cfg loc) w))))
                   = name ` set (drivers cfg)"
    by (simp add: boot_fields boot_drivers_keys with_service_def MailService_new_def)
  show ?thesis
    by (intro conjI once kept one_each all_names built_twice)
qed

text \<open>
  Claim C4, as the code has it. \<^verbatim>\<open>getOptions\<close> of the local driver returns an
  empty object whatever options it was constructed with; the other drivers return
  their constructor-time options. After \<^verbatim>\<open>boot\<close> of a newly constructed service,
  \<^verbatim>\<open>getDriver\<close> returns, for every configured name, the adapter built from the
  first configured entry under that name with that entry's options, and fails for
  any other name.
\<close>

theorem getOptions_of_driver:
  "getOptions (construct cls opts i) = (if cls = LocalMailDriverClass then JObj fmempty else opts) \<and>
   getDriver (service (boot (with_service (MailService_new cfg loc) w))) k =
     (case first_entry k (allocated w) (drivers cfg) of
        None \<Rightarrow> Inl (UnknownDriver k)
      | Some e \<Rightarrow> Inr (built e)) \<and>
   getOptions (built (i, d)) = (if driver d = LocalMailDriverClass then JObj fmempty else options d)"
  by (cases cls; cases "driver d")
     (simp_all add: getDriver_def getAdapter_def boot_fields boot_drivers_lookup built_pair
        with_service_def MailService_new_def split: option.splits)

text \<open>
  Claim C4 as stated fails on the local driver: constructed with the options
  \<^verbatim>\<open>{apiKey: "k"}\<close>, its \<^verbatim>\<open>getOptions\<close> does not return them.
\<close>

theorem getOptions_counterexample:
  "getOptions (construct LocalMailDriverClass (JObj (fmupd ''apiKey'' (JStr ''k'') fmempty)) 0)
     \<noteq> JObj (fmupd ''apiKey'' (JStr ''k'') fmempty)"
  by (simp add: fmap_ext)

section \<open>The locale merge and the mail object\<close>

lemma addLocalesData_view:
  "addLocalesData now a (mail_at a (setBody (BodyView b) m) w) =
     mail_at a
       (setBody (BodyView (b\<lparr>data := Some (fmupd ''locales'' (locales_at now w)
                                (case data b of None \<Rightarrow> fmempty | Some d \<Rightarrow> d))\<rparr>)) m) w"
  by (simp add: addLocalesData_def mail_at_def setBody_def getBody_def locales_at_def)

lemma addLocalesData_string:
  "addLocalesData now a (mail_at a (setBody (BodyString s) m) w) = mail_at a (setBody (BodyString s) m) w"
  by (simp add: addLocalesData_def mail_at_def setBody_def getBody_def)

lemma mail_at_fields:
  "service (mail_at a m w) = service w"
  "trace (mail_at a m w) = trace w"
  "allocated (mail_at a m w) = allocated w"
  "mails (mail_at a m w) = (mails w)(a := m)"
  by (simp_all add: mail_at_def)

lemma getBody_setBody: "getBody (setBody b m) = b"
  by (simp add: getBody_def setBody_def)

lemma driver_name_mail_at: "driver_name drv (mail_at a m w) = driver_name drv w"
  by (cases drv) (simp_all add: driver_name_def mail_at_fields)

lemma send_unfold:
  "send D now a drv w =
     (case send_try D now a (driver_name drv w) w of
        (Inl err, w') \<Rightarrow> (Inl err, logger_error err w')
      | (Inr u, w') \<Rightarrow> (Inr u, w'))"
  by (simp add: send_def driver_name_def)

text \<open>
  Claim C10. \<^verbatim>\<open>MailService.send\<close> mutates the caller's mail object in place. For
  every mail with a template body, whatever the outcome of \<^verbatim>\<open>send\<close>, the object
  at the caller's reference afterwards has the locale-merged body: the same
  descriptor with its data (an empty object when absent) extended by \<^verbatim>\<open>locales\<close>,
  every other reference holding what it held. Under \<^verbatim>\<open>locales\<close> it has the
  injected locales whatever the data had there before. A mail with a plain string
  body is left as it was.
\<close>

theorem send_mutates_mail:
  "mails (snd (send D now a drv (mail_at a (setBody (BodyView b) m) w))) =
     (mails w)(a := setBody (BodyView (b\<lparr>data := Some (fmupd ''locales'' (locales_at now w)
                                (case data b of None \<Rightarrow> fmempty | Some d \<Rightarrow> d))\<rparr>)) m) \<and>
   bodyData (getBody (mails (snd (send D now a drv (mail_at a (setBody (BodyView b) m) w))) a)) ''locales''
     = Some (locales_at now w) \<and>
   mails (snd (send D now a drv (mail_at a (setBody (BodyString s) m) w)))
     = mails (mail_at a (setBody (BodyString s) m) w)"
  by (simp add: send_frame addLocalesData_view addLocalesData_string mail_at_fields getBody_setBody)

text \<open>
  Claim C9. For every mail whose body is a template descriptor without data,
  \<^verbatim>\<open>MailService.send\<close> leaves a body whose data has the key \<^verbatim>\<open>locales\<close> and no
  other: the spread of the \<^verbatim>\<open>[]\<close> fallback adds nothing.
  \<^verbatim>\<open>generateBodyString\<close> on the merged mail calls \<^verbatim>\<open>render\<close> with exactly that
  data, and on a descriptor without data it calls \<^verbatim>\<open>render\<close> with an empty object.
\<close>

theorem template_without_data:
  "getBody (mails (snd (send D now a drv (mail_at a (setBody (BodyView \<lparr>view = v, data = None\<rparr>) m) w))) a)
     = BodyView \<lparr>view = v, data = Some (fmupd ''locales'' (locales_at now w) fmempty)\<rparr> \<and>
   bodyData (getBody (mails (snd (send D now a drv
        (mail_at a (setBody (BodyView \<lparr>view = v, data = None\<rparr>) m) w))) a)) k
     = (if k = ''locales'' then Some (locales_at now w) else None) \<and>
   generateBodyString D a (addLocalesData now a (mail_at a (setBody (BodyView \<lparr>view = v, data = None\<rparr>) m) w))
     = (render D v (fmupd ''locales'' (locales_at now w) fmempty),
        (addLocalesData now a (mail_at a (setBody (BodyView \<lparr>view = v, data = None\<rparr>) m) w))
          \<lparr>trace := trace w @ [Render v (fmupd ''locales'' (locales_at now w) fmempty)]\<rparr>) \<and>
   generateBodyString D a (mail_at a (setBody (BodyView \<lparr>view = v, data = None\<rparr>) m) w)
     = (render D v fmempty,
        (mail_at a (setBody (BodyView \<lparr>view = v, data = None\<rparr>) m) w)
          \<lparr>trace := trace w @ [Render v fmempty]\<rparr>)"
  by (simp add: send_frame addLocalesData_view mail_at_fields getBody_setBody
        generateBodyString_def view_render_def)


section \<open>Unregistered names\<close>

text \<open>
  Claim C5. For every name that is not registered, \<^verbatim>\<open>getDriver\<close> fails with the
  unknown-driver error; \<^verbatim>\<open>getDefaultDriver\<close> fails so when that name is the
  configured default; \<^verbatim>\<open>send\<close> to that name rejects with that error. \<^verbatim>\<open>send\<close> on
  a service that was constructed and not booted rejects with the unknown-driver
  error for the default name, after the locale merge and with the error logged.
\<close>

theorem unregistered_driver_fails:
  assumes "n \<notin> fst ` set (adapters s)"
  shows "getDriver s n = Inl (UnknownDriver n) \<and>
         getDefaultDriver (s\<lparr>mailConfig := (mailConfig s)\<lparr>default_name := n\<rparr>\<rparr>) = Inl (UnknownDriver n) \<and>
         fst (send D now a (Some n) (with_service s w)) = Inl (UnknownDriver n) \<and>
         send D now a None (with_service (MailService_new cfg loc) w)
           = (Inl (UnknownDriver (default_name cfg)),
              logger_error (UnknownDriver (default_name cfg))
                (addLocalesData now a (with_service (MailService_new cfg loc) w)))"
proof -
  from assms have none: "map_of (adapters s) n = None"
    by (simp add: map_of_eq_None_iff)
  have "getDriver s n = Inl (UnknownDriver n)"
    by (simp add: getDriver_def getAdapter_def none)
  moreover have "getDefaultDriver (s\<lparr>mailConfig := (mailConfig s)\<lparr>default_name := n\<rparr>\<rparr>) = Inl (UnknownDriver n)"
    by (simp add: getDefaultDriver_def getAdapter_def none)
  moreover have "fst (send D now a (Some n) (with_service s w)) = Inl (UnknownDriver n)"
    by (simp add: send_def send_try_def Let_def getAdapter_def addLocalesData_frame with_service_def none)
  moreover have "send D now a None (with_service (MailService_new cfg loc) w)
           = (Inl (UnknownDriver (default_name cfg)),
              logger_error (UnknownDriver (default_name cfg))
                (addLocalesData now a (with_service (MailService_new cfg loc) w)))"
    by (simp add: send_def send_try_def Let_def getAdapter_def addLocalesData_frame with_service_def
          MailService_new_def)
  ultimately show ?thesis by blast
qed

theorem unregistered_driver_fails_witness:
  "''local'' \<notin> fst ` set (adapters (service fresh_world)) \<and>
   getDriver (service fresh_world) ''local'' = Inl (UnknownDriver ''local'') \<and>
   fst (send rendering 7 0 (Some ''local'') fresh_world) = Inl (UnknownDriver ''local'')"
proof -
  have unbooted: "''local'' \<notin> fst ` set (adapters (service fresh_world))"
    by (simp add: fresh_world_def MailService_new_def)
  have same: "with_service (service fresh_world) fresh_world = fresh_world"
    by (simp add: with_service_def)
  from unregistered_driver_fails [OF unbooted, of rendering 7 0 fresh_world]
  have "getDriver (service fresh_world) ''local'' = Inl (UnknownDriver ''local'')"
    and "fst (send rendering 7 0 (Some ''local'') (with_service (service fresh_world) fresh_world))
           = Inl (UnknownDriver ''local'')"
    by blast+
  with unbooted show ?thesis
    by (simp add: same)
qed

section \<open>The local driver\<close>

lemma LocalMailDriver_send_string:
  "LocalMailDriver_send D a (mail_at a (setBody (BodyString s) m) w) =
     (Inr (),
      logger_info ''Email''
        (JSON_stringify (JObj (fmap_of_list
           [(''to'', recipients_value (getTo m)),
            (''from'', JStr (getFrom m)),
            (''subject'', JStr (getSubject m)),
            (''body'', JStr s),
            (''attachments'', JArr (getAttachments m))])))
        (mail_at a (setBody (BodyString s) m) w))"
  by (simp add: LocalMailDriver_send_def generateBodyString_def mail_at_def setBody_def getBody_def
        getTo_def getFrom_def getSubject_def getAttachments_def)

text \<open>
  Claim C7. For every mail with a plain string body, \<^verbatim>\<open>send\<close> of the local driver
  resolves, and its one effect is a call of the logger's \<^verbatim>\<open>info\<close> with the message
  \<^verbatim>\<open>Email\<close> and the JSON text of the record of the mail's \<^verbatim>\<open>to\<close>, \<^verbatim>\<open>from\<close>,
  \<^verbatim>\<open>subject\<close>, that string as \<^verbatim>\<open>body\<close>, and \<^verbatim>\<open>attachments\<close>. So does
  \<^verbatim>\<open>MailService.send\<close> when the name resolves to a local driver.
\<close>

theorem local_driver_logs_mail:
  "LocalMailDriver_send D a (mail_at a (setBody (BodyString s) m) w) =
     (Inr (),
      logger_info ''Email''
        (JSON_stringify (JObj (fmap_of_list
           [(''to'', recipients_value (getTo m)),
            (''from'', JStr (getFrom m)),
            (''subject'', JStr (getSubject m)),
            (''body'', JStr s),
            (''attachments'', JArr (getAttachments m))])))
        (mail_at a (setBody (BodyString s) m) w)) \<and>
   (getAdapter (service w) (driver_name drv w) = Inr (LocalMailDriver i) \<longrightarrow>
    send D now a drv (mail_at a (setBody (BodyString s) m) w) =
     (Inr (),
      logger_info ''Email''
        (JSON_stringify (JObj (fmap_of_list
           [(''to'', recipients_value (getTo m)),
            (''from'', JStr (getFrom m)),
            (''subject'', JStr (getSubject m)),
            (''body'', JStr s),
            (''attachments'', JArr (getAttachments m))])))
        (mail_at a (setBody (BodyString s) m) w)))"
  by (simp add: LocalMailDriver_send_string send_unfold send_try_def Let_def addLocalesData_string
        mail_at_fields driver_name_mail_at)

theorem local_driver_logs_mail_witness:
  "send rendering 7 0 None (mail_at 0 (setBody (BodyString ''Hello'') example_mail) example_world) =
     (Inr (),
      logger_info ''Email''
        (JSON_stringify (JObj (fmap_of_list
           [(''to'', JStr ''a@b.com''),
            (''from'', JStr ''c@d.com''),
            (''subject'', JStr ''Hi''),
            (''body'', JStr ''Hello''),
            (''attachments'', JArr [])])))
        (mail_at 0 (setBody (BodyString ''Hello'') example_mail) example_world))"
proof -
  have registered:
    "getAdapter (service example_world) (driver_name None example_world) = Inr (LocalMailDriver 0)"
    by (simp add: example_world_eq getAdapter_def driver_name_def example_config_def)
  from local_driver_logs_mail [of rendering 0 "''Hello''" example_mail example_world None 0 7]
    registered
  show ?thesis
    by (simp add: example_mail_def getTo_def getFrom_def getSubject_def getAttachments_def)
qed

section \<open>What the adapter and the renderer receive\<close>

lemma adapter_send_renders:
  "getBody (mails w a) = BodyView \<lparr>view = v, data = Some d\<rparr> \<Longrightarrow>
   filter isRender (trace (snd (adapter_send D ad a w))) = filter isRender (trace w) @ [Render v d]"
  by (cases ad; cases "render D v d")
     (simp_all add: LocalMailDriver_send_def remote_send_def generateBodyString_def view_render_def
        logger_info_def)

text \<open>
  Claim C2, as the code has it. For every mail whose body is a template descriptor
  with a data object, \<^verbatim>\<open>MailService.send\<close> hands the adapter the mail with the
  merged data: under every key other than \<^verbatim>\<open>locales\<close> what the data had there,
  and under \<^verbatim>\<open>locales\<close> a copy of the locale configuration with its \<^verbatim>\<open>date\<close> set
  to the current date, whatever the data had under \<^verbatim>\<open>locales\<close> before. When the
  name resolves to an adapter, the view service's \<^verbatim>\<open>render\<close> is called once
  within \<^verbatim>\<open>send\<close>, with that merged data. A mail with a plain string body is
  handed to the adapter as it is.
\<close>

theorem locales_added_to_data:
  assumes "getAdapter (service w) (driver_name drv w) = Inr ad"
  shows "bodyData (getBody (mails (addLocalesData now a
             (mail_at a (setBody (BodyView \<lparr>view = v, data = Some d\<rparr>) m) w)) a)) k
           = (if k = ''locales''
              then Some (JObj (fmupd ''date'' (JDate now) (localesConfig (service w))))
              else fmlookup d k) \<and>
         send_try D now a (driver_name drv w) (mail_at a (setBody (BodyView \<lparr>view = v, data = Some d\<rparr>) m) w)
           = adapter_send D ad a
               (mail_at a (setBody (BodyView
                  \<lparr>view = v, data = Some (fmupd ''locales'' (locales_at now w) d)\<rparr>) m) w) \<and>
         filter isRender (trace (snd (send D now a drv
             (mail_at a (setBody (BodyView \<lparr>view = v, data = Some d\<rparr>) m) w))))
           = filter isRender (trace w) @ [Render v (fmupd ''locales'' (locales_at now w) d)] \<and>
         addLocalesData now a (mail_at a (setBody (BodyString s) m) w)
           = mail_at a (setBody (BodyString s) m) w \<and>
         send_try D now a (driver_name drv w) (mail_at a (setBody (BodyString s) m) w)
           = adapter_send D ad a (mail_at a (setBody (BodyString s) m) w)"
proof -
  let ?w1 = "mail_at a (setBody (BodyView \<lparr>view = v, data = Some d\<rparr>) m) w"
  let ?merged = "mail_at a (setBody (BodyView
                  \<lparr>view = v, data = Some (fmupd ''locales'' (locales_at now w) d)\<rparr>) m) w"
  have merge: "addLocalesData now a ?w1 = ?merged"
    by (simp add: addLocalesData_view)
  have looked_up: "bodyData (getBody (mails (addLocalesData now a ?w1) a)) k
           = (if k = ''locales''
              then Some (JObj (fmupd ''date'' (JDate now) (localesConfig (service w))))
              else fmlookup d k)"
    by (simp add: merge mail_at_fields getBody_setBody locales_at_def)
  have handed: "send_try D now a (driver_name drv w) ?w1 = adapter_send D ad a ?merged"
    using assms by (simp add: send_try_def Let_def merge mail_at_fields)
  have "filter isRender (trace (snd (adapter_send D ad a ?merged)))
          = filter isRender (trace ?merged) @ [Render v (fmupd ''locales'' (locales_at now w) d)]"
    by (rule adapter_send_renders) (simp add: mail_at_fields getBody_setBody)
  then have rendered: "filter isRender (trace (snd (send D now a drv ?w1)))
           = filter isRender (trace w) @ [Render v (fmupd ''locales'' (locales_at now w) d)]"
    by (cases "adapter_send D ad a ?merged")
       (simp add: send_unfold driver_name_mail_at handed logger_error_def mail_at_fields
          split: sum.splits)
  have plain: "addLocalesData now a (mail_at a (setBody (BodyString s) m) w)
           = mail_at a (setBody (BodyString s) m) w"
    by (rule addLocalesData_string)
  have through: "send_try D now a (driver_name drv w) (mail_at a (setBody (BodyString s) m) w)
           = adapter_send D ad a (mail_at a (setBody (BodyString s) m) w)"
    using assms by (simp add: send_try_def Let_def plain mail_at_fields)
  show ?thesis
    by (intro conjI looked_up handed rendered plain through)
qed

theorem locales_added_to_data_witness:
  "getAdapter (service example_world) (driver_name None example_world) = Inr (LocalMailDriver 0) \<and>
   filter isRender (trace (snd (send rendering 7 0 None
       (mail_at 0 (setBody (BodyView \<lparr>view = ''x'', data = Some (fmupd ''a'' (JNum 1) fmempty)\<rparr>)
                     example_mail) example_world))))
     = [Render ''x'' (fmupd ''locales'' (JObj (fmupd ''date'' (JDate 7) fmempty))
                        (fmupd ''a'' (JNum 1) fmempty))]"
proof -
  have registered:
    "getAdapter (service example_world) (driver_name None example_world) = Inr (LocalMailDriver 0)"
    by (simp add: example_world_eq getAdapter_def driver_name_def example_config_def)
  have start: "trace example_world = []" "locales_at 7 example_world = JObj (fmupd ''date'' (JDate 7) fmempty)"
    by (simp_all add: example_world_eq locales_at_def)
  from locales_added_to_data [OF registered]
  have "filter isRender (trace (snd (send rendering 7 0 None
           (mail_at 0 (setBody (BodyView \<lparr>view = ''x'', data = Some (fmupd ''a'' (JNum 1) fmempty)\<rparr>)
                     example_mail) example_world))))
         = filter isRender (trace example_world)
             @ [Render ''x'' (fmupd ''locales'' (locales_at 7 example_world) (fmupd ''a'' (JNum 1) fmempty))]"
    by blast
  with registered show ?thesis
    by (simp add: start)
qed

text \<open>
  Claim C2 as stated fails on data that has a \<^verbatim>\<open>locales\<close> key of its own: of the
  data \<^verbatim>\<open>{locales: "en"}\<close> the pair under \<^verbatim>\<open>locales\<close> is not kept.
\<close>

theorem data_pair_counterexample:
  "bodyData (BodyView \<lparr>view = ''x'', data = Some (fmupd ''locales'' (JStr ''en'') fmempty)\<rparr>) ''locales''
     = Some (JStr ''en'') \<and>
   bodyData (getBody (mails (snd (send rendering 7 0 None
       (mail_at 0 (setBody (BodyView \<lparr>view = ''x'', data = Some (fmupd ''locales'' (JStr ''en'') fmempty)\<rparr>)
                     example_mail) example_world))) 0)) ''locales''
     = Some (JObj (fmupd ''date'' (JDate 7) fmempty)) \<and>
   bodyData (getBody (mails (snd (send rendering 7 0 None
       (mail_at 0 (setBody (BodyView \<lparr>view = ''x'', data = Some (fmupd ''locales'' (JStr ''en'') fmempty)\<rparr>)
                     example_mail) example_world))) 0)) ''locales''
     \<noteq> Some (JStr ''en'')"
  by (simp add: send_frame addLocalesData_view mail_at_fields getBody_setBody locales_at_def
        example_world_eq)

end
